theory Spec2Isabelle
  imports Main
begin

section \<open>Syntax trees of the host engine\<close>

text \<open>
  The preprocessing module of the TypeScript service works on syntax trees of the host
  engine. Every node carries a text range \<open>pos\<close>/\<open>end\<close>; a node made by one of the
  host's \<open>create...\<close> functions is synthesized and has the range \<open>(-1, -1)\<close> until
  \<open>setTextRange\<close> assigns one.  Only the node kinds that the module inspects or
  builds are spelled out; every other kind is an \<open>Other...\<close> node with its kind code.
\<close>

record textRange =
  pos :: int
  end' :: int

definition synthesized :: textRange where
  "synthesized = \<lparr>pos = -1, end' = -1\<rparr>"

datatype expression =
    Identifier textRange string
  | StringLiteral textRange string
  | ObjectLiteralExpression textRange "(string \<times> expression) list"
  | CallExpression textRange expression textRange "expression list"
      \<comment> \<open>own range, callee, range of the argument node array, arguments\<close>
  | FunctionExpression textRange "statement list"
      \<comment> \<open>anonymous function without parameters; the block's statements\<close>
  | OtherExpression textRange nat
and statement =
    ExportAssignment textRange bool expression
      \<comment> \<open>\<open>export default e\<close>, or \<open>export = e\<close> when the flag \<open>isExportEquals\<close> is set\<close>
  | ImportDeclaration textRange importClause expression
  | ExpressionStatement textRange expression
  | OtherStatement textRange nat
and importClause =
    ImportClause textRange "expression option" "expression list option"
      \<comment> \<open>default-import name; names of the import specifiers of the named bindings\<close>

fun rangeOfExpression :: "expression \<Rightarrow> textRange" where
  "rangeOfExpression (Identifier r _) = r"
| "rangeOfExpression (StringLiteral r _) = r"
| "rangeOfExpression (ObjectLiteralExpression r _) = r"
| "rangeOfExpression (CallExpression r _ _ _) = r"
| "rangeOfExpression (FunctionExpression r _) = r"
| "rangeOfExpression (OtherExpression r _) = r"

fun rangeOfStatement :: "statement \<Rightarrow> textRange" where
  "rangeOfStatement (ExportAssignment r _ _) = r"
| "rangeOfStatement (ImportDeclaration r _ _) = r"
| "rangeOfStatement (ExpressionStatement r _) = r"
| "rangeOfStatement (OtherStatement r _) = r"

text \<open>\<open>setTextRange(node, location)\<close> copies \<open>pos\<close> and \<open>end\<close> of the location to the node.\<close>

fun setTextRangeExpression :: "expression \<Rightarrow> textRange \<Rightarrow> expression" where
  "setTextRangeExpression (Identifier _ n) l = Identifier l n"
| "setTextRangeExpression (StringLiteral _ t) l = StringLiteral l t"
| "setTextRangeExpression (ObjectLiteralExpression _ ps) l = ObjectLiteralExpression l ps"
| "setTextRangeExpression (CallExpression _ f ar as) l = CallExpression l f ar as"
| "setTextRangeExpression (FunctionExpression _ b) l = FunctionExpression l b"
| "setTextRangeExpression (OtherExpression _ k) l = OtherExpression l k"

fun setTextRangeStatement :: "statement \<Rightarrow> textRange \<Rightarrow> statement" where
  "setTextRangeStatement (ExportAssignment _ q e) l = ExportAssignment l q e"
| "setTextRangeStatement (ImportDeclaration _ c m) l = ImportDeclaration l c m"
| "setTextRangeStatement (ExpressionStatement _ e) l = ExpressionStatement l e"
| "setTextRangeStatement (OtherStatement _ k) l = OtherStatement l k"

fun setTextRangeImportClause :: "importClause \<Rightarrow> textRange \<Rightarrow> importClause" where
  "setTextRangeImportClause (ImportClause _ n b) l = ImportClause l n b"

text \<open>The range of the argument node array of a call (\<open>setTextRange(call.arguments, l)\<close>).\<close>

fun setTextRangeArguments :: "expression \<Rightarrow> textRange \<Rightarrow> expression" where
  "setTextRangeArguments (CallExpression r f _ as) l = CallExpression r f l as"
| "setTextRangeArguments e l = e"

text \<open>The node factory of the host: every result is a synthesized node.\<close>

definition createIdentifier :: "string \<Rightarrow> expression" where
  "createIdentifier n = Identifier synthesized n"

definition createLiteral :: "string \<Rightarrow> expression" where
  "createLiteral t = StringLiteral synthesized t"

definition createCall :: "expression \<Rightarrow> expression list \<Rightarrow> expression" where
  "createCall f as = CallExpression synthesized f synthesized as"

definition createFunctionExpression :: "statement list \<Rightarrow> expression" where
  "createFunctionExpression body = FunctionExpression synthesized body"

definition createStatement :: "expression \<Rightarrow> statement" where
  "createStatement e = ExpressionStatement synthesized e"

definition createImportClause :: "expression option \<Rightarrow> expression list option \<Rightarrow> importClause" where
  "createImportClause n b = ImportClause synthesized n b"

definition createImportDeclaration :: "importClause \<Rightarrow> expression \<Rightarrow> statement" where
  "createImportDeclaration c m = ImportDeclaration synthesized c m"

datatype scriptKind = Unknown | JS | JSX | TS | TSX | External | JSON | Deferred

record sourceFile =
  fileName :: string
  languageVersion :: nat
  statements :: "statement list"
  externalModuleIndicator :: "statement option"

section \<open>The script rewrite\<close>

text \<open>
  \<open>statements.find(st => st.kind === ExportAssignment && st.expression.kind ===
  ObjectLiteralExpression)\<close>: the test looks at the syntax kinds only, so it accepts an
  export assignment of either form.
\<close>

fun isExportDefaultObject :: "statement \<Rightarrow> bool" where
  "isExportDefaultObject (ExportAssignment _ _ (ObjectLiteralExpression _ _)) = True"
| "isExportDefaultObject _ = False"

text \<open>
  \<open>find\<close> yields the first array element that passes the test, as an object shared with
  the array; the model names that object by its index \<open>i\<close>. \<open>unshift\<close> puts the import in
  front of the array, and the assignment to the \<open>expression\<close> field of the found object
  changes the array element at \<open>i\<close> (now at \<open>i + 1\<close>). The found statement is always an
  export assignment, so the last branch of the inner \<open>case\<close> is never taken.
\<close>

fun findIndex :: "('a \<Rightarrow> bool) \<Rightarrow> 'a list \<Rightarrow> nat option" where
  "findIndex P [] = None"
| "findIndex P (x # xs) =
     (if P x then Some 0 else (case findIndex P xs of None \<Rightarrow> None | Some i \<Rightarrow> Some (Suc i)))"

text \<open>
  The two nodes that \<open>modifyVueScript\<close> builds, each in a definition of its own.
  \<open>getWrapperRangeSetter(tsModule, wrapped)\<close> is the function that gives a node the
  range of \<open>wrapped\<close>; the model keeps that range under the name of the function and
  applies \<open>setTextRange\<close> with it.
\<close>

definition vueImport :: statement where
  "vueImport =
     (let setZeroPos = \<lparr>pos = 0, end' = 0\<rparr> in
      setTextRangeStatement
        (createImportDeclaration
           (setTextRangeImportClause
              (createImportClause (Some (createIdentifier ''__vueEditorBridge'')) None) setZeroPos)
           (setTextRangeExpression (createLiteral ''vue-editor-bridge'') setZeroPos))
        setZeroPos)"

definition wrapObjectLiteral :: "expression \<Rightarrow> expression" where
  "wrapObjectLiteral objectLiteral =
     (let setObjPos = rangeOfExpression objectLiteral;
          vue = setTextRangeExpression (createIdentifier ''__vueEditorBridge'')
                  \<lparr>pos = pos (rangeOfExpression objectLiteral),
                   end' = pos (rangeOfExpression objectLiteral) + 1\<rparr>;
          call = setTextRangeExpression (createCall vue [objectLiteral]) setObjPos
      in setTextRangeArguments call setObjPos)"

definition modifyVueScript :: "sourceFile \<Rightarrow> sourceFile" where
  "modifyVueScript sourceFile =
     (case findIndex isExportDefaultObject (statements sourceFile) of
        None \<Rightarrow> sourceFile
      | Some i \<Rightarrow>
          (case statements sourceFile ! i of
             ExportAssignment r q objectLiteral \<Rightarrow>
               sourceFile\<lparr>statements :=
                 vueImport #
                 (statements sourceFile)[i := ExportAssignment r q (wrapObjectLiteral objectLiteral)]\<rparr>
           | _ \<Rightarrow> sourceFile))"

section \<open>Collaborators outside the module\<close>

text \<open>
  The module calls the host engine (its two source-file operations \<open>clssf\<close> and
  \<open>ulssf\<close>, its printer and its parser), the markup parser, the transform visitor,
  the region splitter, the source-map generator, the test for virtual template files,
  the path library and four helper names. None of them is defined in the module, so
  each is a field of the record \<open>host\<close>, and every theorem holds for every host.

  Source files are objects with an identity: the two side tables of the module are
  keyed by the object, and the rewrites change an object in place. The store is the
  list of all source-file objects, and a reference is an index into it. The host's
  operations take the store and return a reference with the new store, so that a host
  may hand back an object it was given or allocate a new one.

  The markup tree is of an arbitrary type \<open>'g\<close>, the text that the printer writes and
  the parser reads of an arbitrary type \<open>'p\<close>, a source map of an arbitrary type \<open>'m\<close>.
\<close>

datatype thrown = Thrown string

text \<open>
  What a call of the transform visitor does: it returns its expressions, or it throws.
  \<open>Threw err produced\<close> records, next to the thrown value, the expressions that the
  visitor had built when it threw; a caller of the visitor has no access to them.
\<close>

datatype transformed = Returned "expression list" | Threw thrown "expression list"

record embeddedDocument =
  languageId :: string
  getText :: string

record textChangeRange =
  spanStart :: nat
  spanLength :: nat
  newLength :: nat

record ('g, 'p, 'm) host =
  clssf :: "sourceFile list \<Rightarrow> string \<Rightarrow> string \<Rightarrow> nat \<Rightarrow> string \<Rightarrow> bool \<Rightarrow> scriptKind option
              \<Rightarrow> nat \<times> sourceFile list"
  ulssf :: "sourceFile list \<Rightarrow> nat \<Rightarrow> string \<Rightarrow> string \<Rightarrow> textChangeRange option \<Rightarrow> bool option
              \<Rightarrow> nat \<times> sourceFile list"
  printFile :: "sourceFile \<Rightarrow> 'p"
  createSourceFile :: "sourceFile list \<Rightarrow> string \<Rightarrow> 'p \<Rightarrow> nat \<Rightarrow> bool \<Rightarrow> scriptKind
              \<Rightarrow> nat \<times> sourceFile list"
  parse :: "string \<Rightarrow> thrown + 'g"
  transformTemplate :: "'g \<Rightarrow> string \<Rightarrow> transformed"
  generateSourceMap :: "sourceFile \<Rightarrow> sourceFile \<Rightarrow> 'm"
  isVirtualVueTemplateFile :: "string \<Rightarrow> bool"
  getSingleTypeDocument :: "string \<Rightarrow> string \<Rightarrow> embeddedDocument"
  extname :: "string \<Rightarrow> string"
  basename :: "string \<Rightarrow> string"
  renderHelperName :: string
  componentHelperName :: string
  iterationHelperName :: string
  listenerHelperName :: string

section \<open>Extracting the sections of a component file\<close>

definition isVue :: "('g, 'p, 'm) host \<Rightarrow> string \<Rightarrow> bool" where
  "isVue env filename = (extname env filename = ''.vue'')"

text \<open>\<open>script.getText() || 'export default {};'\<close>: the empty string is the only falsy string.\<close>

definition parseVueScript :: "('g, 'p, 'm) host \<Rightarrow> string \<Rightarrow> string" where
  "parseVueScript env text =
     (let script = getSingleTypeDocument env text ''script'' in
      if getText script \<noteq> [] then getText script else ''export default {};'')"

text \<open>
  The white-space class of a regular expression, on the code units that a \<open>char\<close> can hold:
  tab, line feed, vertical tab, form feed, carriage return, space and no-break space.
\<close>

definition isWhiteSpace :: "char \<Rightarrow> bool" where
  "isWhiteSpace c = (of_char c \<in> {9, 10, 11, 12, 13, 32, 160 :: nat})"

text \<open>\<open>rawText.replace(/ {10}/, '<template>')\<close>: only the first run of ten spaces is replaced.\<close>

fun replaceTenSpaces :: "string \<Rightarrow> string" where
  "replaceTenSpaces [] = []"
| "replaceTenSpaces (c # cs) =
     (if take 10 (c # cs) = replicate 10 CHR '' '' then ''<template>'' @ drop 10 (c # cs)
      else c # replaceTenSpaces cs)"

definition parseVueTemplate :: "('g, 'p, 'm) host \<Rightarrow> string \<Rightarrow> string" where
  "parseVueTemplate env text =
     (let template = getSingleTypeDocument env text ''template'' in
      if languageId template \<noteq> ''vue-html'' then []
      else
        (let rawText = getText template in
         if filter (\<lambda>c. \<not> isWhiteSpace c) rawText = [] then []
         else replaceTenSpaces rawText @ ''</template>''))"

section \<open>The template injector\<close>

text \<open>\<open>s.slice(0, -n)\<close> drops the last \<open>n\<close> code units, and gives the empty string when
  the string has fewer.\<close>

definition sliceEnd :: "string \<Rightarrow> nat \<Rightarrow> string" where
  "sliceEnd s n = take (length s - n) s"

text \<open>The three statements that \<open>injectVueTemplate\<close> builds, each under the name of the
  local constant that holds it.\<close>

definition componentImport :: "('g, 'p, 'm) host \<Rightarrow> sourceFile \<Rightarrow> statement" where
  "componentImport env sourceFile =
     (let vueFilePath = ''./'' @ basename env (sliceEnd (fileName sourceFile) 9) in
      createImportDeclaration
        (createImportClause (Some (createIdentifier ''__Component'')) None)
        (createLiteral vueFilePath))"

definition helperImport :: "('g, 'p, 'm) host \<Rightarrow> statement" where
  "helperImport env =
     createImportDeclaration
       (createImportClause None
          (Some [createIdentifier (renderHelperName env),
                 createIdentifier (componentHelperName env),
                 createIdentifier (iterationHelperName env),
                 createIdentifier (listenerHelperName env)]))
       (createLiteral ''vue-editor-bridge'')"

definition renderElement :: "('g, 'p, 'm) host \<Rightarrow> expression list \<Rightarrow> statement" where
  "renderElement env renderBlock =
     (let statements' = map createStatement renderBlock in
      createStatement
        (createCall (createIdentifier (renderHelperName env))
           [createIdentifier ''__Component'', createFunctionExpression statements']))"

definition injectVueTemplate ::
  "('g, 'p, 'm) host \<Rightarrow> sourceFile \<Rightarrow> expression list \<Rightarrow> sourceFile" where
  "injectVueTemplate env sourceFile renderBlock =
     sourceFile\<lparr>statements :=
                  [componentImport env sourceFile, helperImport env, renderElement env renderBlock],
                externalModuleIndicator := Some (componentImport env sourceFile)\<rparr>"

section \<open>The lifecycle of synthetic documents\<close>

datatype logEntry = LogText string | LogThrown thrown

text \<open>
  The state that \<open>createUpdater\<close> and the service share: the store of source-file
  objects, the weak map \<open>scriptKindTracker\<close> (an entry may hold \<open>undefined\<close>, here
  \<open>None\<close>), the weak set \<open>modificationTracker\<close>, the table \<open>templateSourceMap\<close> and the
  lines written to the console.
\<close>

record 'm state =
  heap :: "sourceFile list"
  scriptKindTracker :: "nat \<rightharpoonup> scriptKind option"
  modificationTracker :: "nat set"
  templateSourceMap :: "string \<rightharpoonup> 'm"
  consoleLog :: "logEntry list"

definition isTSLike :: "scriptKind option \<Rightarrow> bool" where
  "isTSLike scriptKind = (scriptKind = Some TS \<or> scriptKind = Some TSX)"

definition modifySourceFile ::
  "('g, 'p, 'm) host \<Rightarrow> string \<Rightarrow> nat \<Rightarrow> string \<Rightarrow> string \<Rightarrow> scriptKind option
     \<Rightarrow> 'm state \<Rightarrow> 'm state" where
  "modifySourceFile env fileName' sourceFile scriptSnapshot version scriptKind s =
     (if sourceFile \<in> modificationTracker s then s
      else if isVue env fileName' \<and> \<not> isTSLike scriptKind then
        s\<lparr>heap := (heap s)[sourceFile := modifyVueScript (heap s ! sourceFile)],
          modificationTracker := insert sourceFile (modificationTracker s)\<rparr>
      else s)"

text \<open>
  The markup parser is called outside the \<open>try\<close> block: what it throws leaves the
  function. What the transform visitor throws is caught and written to the console,
  and then neither the assignment to \<open>expressions\<close> nor the injection has happened.
\<close>

definition recreateVueTempalteSourceFile ::
  "('g, 'p, 'm) host \<Rightarrow> string \<Rightarrow> nat \<Rightarrow> string \<Rightarrow> 'm state \<Rightarrow> (thrown + nat) \<times> 'm state" where
  "recreateVueTempalteSourceFile env vueTemplateFileName sourceFile scriptSnapshot s =
     (let templateCode = parseVueTemplate env scriptSnapshot in
      case parse env templateCode of
        Inl err \<Rightarrow> (Inl err, s)
      | Inr program \<Rightarrow>
          (let s1 = (case transformTemplate env program templateCode of
                       Returned expressions \<Rightarrow>
                         s\<lparr>heap := (heap s)[sourceFile :=
                                    injectVueTemplate env (heap s ! sourceFile) expressions]\<rparr>
                     | Threw err produced \<Rightarrow>
                         s\<lparr>consoleLog := consoleLog s @
                             [LogText (''Failed to transform template of '' @ vueTemplateFileName),
                              LogThrown err]\<rparr>);
               newText = printFile env (heap s1 ! sourceFile);
               (newSourceFile, heap2) =
                  createSourceFile env (heap s1) vueTemplateFileName newText
                    (languageVersion (heap s1 ! sourceFile)) True JS;
               sourceMapNodes = generateSourceMap env (heap2 ! sourceFile) (heap2 ! newSourceFile)
           in (Inr newSourceFile,
               s1\<lparr>heap := heap2,
                  templateSourceMap := (templateSourceMap s1)
                    (vueTemplateFileName \<mapsto> sourceMapNodes,
                     sliceEnd vueTemplateFileName (length ''.template'') \<mapsto> sourceMapNodes)\<rparr>)))"

definition createLanguageServiceSourceFile ::
  "('g, 'p, 'm) host \<Rightarrow> string \<Rightarrow> string \<Rightarrow> nat \<Rightarrow> string \<Rightarrow> bool \<Rightarrow> scriptKind option
     \<Rightarrow> 'm state \<Rightarrow> (thrown + nat) \<times> 'm state" where
  "createLanguageServiceSourceFile env fileName' scriptSnapshot scriptTarget version setNodeParents
      scriptKind s =
     (let (sourceFile, heap1) =
            clssf env (heap s) fileName' scriptSnapshot scriptTarget version setNodeParents scriptKind;
          s1 = s\<lparr>heap := heap1,
                 scriptKindTracker := (scriptKindTracker s)(sourceFile \<mapsto> scriptKind)\<rparr>
      in if isVirtualVueTemplateFile env fileName' then
           (case recreateVueTempalteSourceFile env fileName' sourceFile scriptSnapshot s1 of
              (Inl err, s2) \<Rightarrow> (Inl err, s2)
            | (Inr newSourceFile, s2) \<Rightarrow>
                (Inr newSourceFile,
                 s2\<lparr>modificationTracker := insert newSourceFile (modificationTracker s2)\<rparr>))
         else
           (Inr sourceFile,
            modifySourceFile env fileName' sourceFile scriptSnapshot version scriptKind s1))"

text \<open>\<open>scriptKindTracker.get(sourceFile)\<close> is \<open>undefined\<close> for an object without an entry.\<close>

definition getScriptKind :: "'m state \<Rightarrow> nat \<Rightarrow> scriptKind option" where
  "getScriptKind s sourceFile =
     (case scriptKindTracker s sourceFile of None \<Rightarrow> None | Some scriptKind \<Rightarrow> scriptKind)"

definition updateLanguageServiceSourceFile ::
  "('g, 'p, 'm) host \<Rightarrow> nat \<Rightarrow> string \<Rightarrow> string \<Rightarrow> textChangeRange option \<Rightarrow> bool option
     \<Rightarrow> 'm state \<Rightarrow> (thrown + nat) \<times> 'm state" where
  "updateLanguageServiceSourceFile env sourceFile scriptSnapshot version textChangeRange
      aggressiveChecks s =
     (let scriptKind = getScriptKind s sourceFile;
          (sourceFile1, heap1) =
            ulssf env (heap s) sourceFile scriptSnapshot version textChangeRange aggressiveChecks;
          s1 = s\<lparr>heap := heap1\<rparr>;
          fileName1 = fileName (heap1 ! sourceFile1)
      in if isVirtualVueTemplateFile env fileName1 then
           (case recreateVueTempalteSourceFile env fileName1 sourceFile1 scriptSnapshot s1 of
              (Inl err, s2) \<Rightarrow> (Inl err, s2)
            | (Inr newSourceFile, s2) \<Rightarrow>
                (Inr newSourceFile,
                 s2\<lparr>modificationTracker := insert newSourceFile (modificationTracker s2)\<rparr>))
         else
           (Inr sourceFile1,
            modifySourceFile env fileName1 sourceFile1 scriptSnapshot version scriptKind s1))"

section \<open>Notions of the specification\<close>

text \<open>
  A default export of an object literal, in the narrow sense of the words:
  \<open>export default { ... }\<close>, and not \<open>export = { ... }\<close>.
\<close>

fun isDefaultExportOfObjectLiteral :: "statement \<Rightarrow> bool" where
  "isDefaultExportOfObjectLiteral (ExportAssignment _ q (ObjectLiteralExpression _ _)) = (\<not> q)"
| "isDefaultExportOfObjectLiteral _ = False"

definition hasDefaultExportOfObjectLiteral :: "sourceFile \<Rightarrow> bool" where
  "hasDefaultExportOfObjectLiteral sourceFile =
     list_ex isDefaultExportOfObjectLiteral (statements sourceFile)"

text \<open>Two ranges overlap when they share a position; a range covers \<open>pos\<close> up to, and
  without, \<open>end\<close>.\<close>

definition overlaps :: "textRange \<Rightarrow> textRange \<Rightarrow> bool" where
  "overlaps a b = (max (pos a) (pos b) < min (end' a) (end' b))"

text \<open>
  The structure of a tree is the tree without its text ranges: every range is replaced
  by the range of a synthesized node. Two statement lists of the same structure differ
  in positions only.
\<close>

primrec eraseExpression :: "expression \<Rightarrow> expression"
  and eraseStatement :: "statement \<Rightarrow> statement"
  and eraseImportClause :: "importClause \<Rightarrow> importClause" where
  "eraseExpression (Identifier r n) = Identifier synthesized n"
| "eraseExpression (StringLiteral r t) = StringLiteral synthesized t"
| "eraseExpression (ObjectLiteralExpression r ps) =
     ObjectLiteralExpression synthesized (map (map_prod id eraseExpression) ps)"
| "eraseExpression (CallExpression r f ar as) =
     CallExpression synthesized (eraseExpression f) synthesized (map eraseExpression as)"
| "eraseExpression (FunctionExpression r b) = FunctionExpression synthesized (map eraseStatement b)"
| "eraseExpression (OtherExpression r k) = OtherExpression synthesized k"
| "eraseStatement (ExportAssignment r q e) = ExportAssignment synthesized q (eraseExpression e)"
| "eraseStatement (ImportDeclaration r c m) =
     ImportDeclaration synthesized (eraseImportClause c) (eraseExpression m)"
| "eraseStatement (ExpressionStatement r e) = ExpressionStatement synthesized (eraseExpression e)"
| "eraseStatement (OtherStatement r k) = OtherStatement synthesized k"
| "eraseImportClause (ImportClause r n b) =
     ImportClause synthesized (map_option eraseExpression n) (map_option (map eraseExpression) b)"



section \<open>A small host\<close>

text \<open>
  A host to run the module on: its store grows by one object for each new source file;
  its update hands back the object it was given when the change range is empty, and
  makes a new object otherwise; its printer writes the statement list as it is and its
  parser reads it back; its script parser, its region splitter and its transform
  visitor know a few texts. Paths have no trailing separator.
\<close>

definition endsWith :: "string \<Rightarrow> string \<Rightarrow> bool" where
  "endsWith s t = (length t \<le> length s \<and> drop (length s - length t) s = t)"

definition startsWith :: "string \<Rightarrow> string \<Rightarrow> bool" where
  "startsWith s t = (take (length t) s = t)"

definition smallBasename :: "string \<Rightarrow> string" where
  "smallBasename p = rev (takeWhile (\<lambda>c. c \<noteq> CHR ''/'') (rev p))"

definition smallExtname :: "string \<Rightarrow> string" where
  "smallExtname p =
     (let b = smallBasename p; e = takeWhile (\<lambda>c. c \<noteq> CHR ''.'') (rev b)
      in if CHR ''.'' \<notin> set b \<or> Suc (length e) = length b \<or> b = ''..'' then []
         else CHR ''.'' # rev e)"

definition smallRegions :: "string \<Rightarrow> string \<Rightarrow> embeddedDocument" where
  "smallRegions text type =
     (if type = ''template'' then
        \<lparr>languageId = ''vue-html'',
         getText = (if startsWith text ''<template>'' \<and> endsWith text ''</template>''
                    then replicate 10 CHR '' '' @ take (length text - 21) (drop 10 text)
                    else [])\<rparr>
      else
        \<lparr>languageId = ''javascript'',
         getText = (if startsWith text ''<script>'' \<and> endsWith text ''</script>''
                    then replicate 8 CHR '' '' @ take (length text - 17) (drop 8 text)
                    else [])\<rparr>)"

definition smallScriptParser :: "string \<Rightarrow> statement list" where
  "smallScriptParser text =
     (if text = ''export default {}'' then
        [ExportAssignment \<lparr>pos = 0, end' = 17\<rparr> False
           (ObjectLiteralExpression \<lparr>pos = 14, end' = 17\<rparr> [])]
      else if text = ''export = {}'' then
        [ExportAssignment \<lparr>pos = 0, end' = 11\<rparr> True
           (ObjectLiteralExpression \<lparr>pos = 8, end' = 11\<rparr> [])]
      else if text = ''export = {}; export default {}'' then
        [ExportAssignment \<lparr>pos = 0, end' = 12\<rparr> True
           (ObjectLiteralExpression \<lparr>pos = 8, end' = 11\<rparr> []),
         ExportAssignment \<lparr>pos = 12, end' = 30\<rparr> False
           (ObjectLiteralExpression \<lparr>pos = 27, end' = 30\<rparr> [])]
      else if text = ''export default {}; export default {}'' then
        [ExportAssignment \<lparr>pos = 0, end' = 18\<rparr> False
           (ObjectLiteralExpression \<lparr>pos = 14, end' = 17\<rparr> []),
         ExportAssignment \<lparr>pos = 18, end' = 36\<rparr> False
           (ObjectLiteralExpression \<lparr>pos = 33, end' = 36\<rparr> [])]
      else if text = ''export default foo'' then
        [ExportAssignment \<lparr>pos = 0, end' = 18\<rparr> False (Identifier \<lparr>pos = 14, end' = 18\<rparr> ''foo'')]
      else [])"

definition smallVisitor :: "string \<Rightarrow> string \<Rightarrow> transformed" where
  "smallVisitor program code =
     (if code = ''<template>{{ msg }}</template>'' then
        Returned [Identifier \<lparr>pos = 13, end' = 16\<rparr> ''msg'']
      else if code = ''<template>{{ a }}{{ b }}</template>'' then
        Threw (Thrown ''unexpected node'') [Identifier \<lparr>pos = 13, end' = 14\<rparr> ''a'']
      else Returned [])"

definition mkSourceFile :: "string \<Rightarrow> nat \<Rightarrow> statement list \<Rightarrow> sourceFile" where
  "mkSourceFile name target sts =
     \<lparr>fileName = name, languageVersion = target, statements = sts,
      externalModuleIndicator = None\<rparr>"

definition isUnchanged :: "textChangeRange option \<Rightarrow> bool" where
  "isUnchanged r = (case r of None \<Rightarrow> False | Some c \<Rightarrow> spanLength c = 0 \<and> newLength c = 0)"

definition smallHost :: "(string, statement list, statement list \<times> statement list) host" where
  "smallHost =
     \<lparr>clssf = (\<lambda>h name snapshot target version setNodeParents kind.
         (length h, h @ [mkSourceFile name target (smallScriptParser snapshot)])),
      ulssf = (\<lambda>h sf snapshot version range aggressive.
         if isUnchanged range then (sf, h)
         else (length h,
               h @ [mkSourceFile (fileName (h ! sf)) (languageVersion (h ! sf))
                      (smallScriptParser snapshot)])),
      printFile = statements,
      createSourceFile = (\<lambda>h name text target setParentNodes kind.
         (length h, h @ [mkSourceFile name target text])),
      parse = Inr,
      transformTemplate = smallVisitor,
      generateSourceMap = (\<lambda>original synthetic. (statements original, statements synthetic)),
      isVirtualVueTemplateFile = (\<lambda>p. endsWith p ''.vue.template''),
      getSingleTypeDocument = smallRegions,
      extname = smallExtname,
      basename = smallBasename,
      renderHelperName = ''__vlsRenderHelper'',
      componentHelperName = ''__vlsComponentHelper'',
      iterationHelperName = ''__vlsIterationHelper'',
      listenerHelperName = ''__vlsListenerHelper''\<rparr>"

definition emptyState :: "'m state" where
  "emptyState =
     \<lparr>heap = [], scriptKindTracker = Map.empty, modificationTracker = {},
      templateSourceMap = Map.empty, consoleLog = []\<rparr>"


definition twoStatementScript :: sourceFile where
  "twoStatementScript =
     mkSourceFile ''/src/App.vue'' 0
       [OtherStatement \<lparr>pos = 0, end' = 12\<rparr> 1,
        ExportAssignment \<lparr>pos = 12, end' = 30\<rparr> False
          (ObjectLiteralExpression \<lparr>pos = 27, end' = 30\<rparr> [])]"

definition exportEqualsScript :: sourceFile where
  "exportEqualsScript = mkSourceFile ''/src/App.vue'' 0 (smallScriptParser ''export = {}'')"

text \<open>The script \<open>export = {}; export default {}\<close>.\<close>

definition exportEqualsThenDefaultScript :: sourceFile where
  "exportEqualsThenDefaultScript =
     mkSourceFile ''/src/App.vue'' 0 (smallScriptParser ''export = {}; export default {}'')"

text \<open>The state after the host has made the object of a virtual template file.\<close>

definition templateHostState :: "(statement list \<times> statement list) state" where
  "templateHostState = emptyState\<lparr>heap := [mkSourceFile ''/src/App.vue.template'' 0 []]\<rparr>"

text \<open>Creation of a virtual template file whose visitor throws after its first expression.\<close>

definition failingCreated :: "(thrown + nat) \<times> (statement list \<times> statement list) state" where
  "failingCreated =
     createLanguageServiceSourceFile smallHost ''/src/App.vue.template''
       ''<template>{{ a }}{{ b }}</template>'' 0 ''1'' False None emptyState"

text \<open>Creation of a virtual template file whose template section holds three spaces.\<close>

definition blankCreated :: "(thrown + nat) \<times> (statement list \<times> statement list) state" where
  "blankCreated =
     createLanguageServiceSourceFile smallHost ''/src/App.vue.template''
       ''<template>   </template>'' 0 ''1'' False None emptyState"



text \<open>Creation of the script of a component file of kind \<open>TS\<close>, and two updates without a
  change range, each of the object that the call before returned.\<close>

definition tsCreated :: "(thrown + nat) \<times> (statement list \<times> statement list) state" where
  "tsCreated =
     createLanguageServiceSourceFile smallHost ''/src/App.vue'' ''export default {}'' 0 ''1'' False
       (Some TS) emptyState"

definition tsUpdated :: "(thrown + nat) \<times> (statement list \<times> statement list) state" where
  "tsUpdated =
     updateLanguageServiceSourceFile smallHost 0 ''export default {}'' ''2'' None None
       (snd tsCreated)"

definition tsUpdatedAgain :: "(thrown + nat) \<times> (statement list \<times> statement list) state" where
  "tsUpdatedAgain =
     updateLanguageServiceSourceFile smallHost 1 ''export default {}'' ''3'' None None
       (snd tsUpdated)"

section \<open>Facts about the pieces\<close>

lemma findIndex_None: "findIndex P xs = None \<longleftrightarrow> (\<forall>x\<in>set xs. \<not> P x)"
  by (induction xs) (auto split: option.splits)

lemma findIndex_first:
  "i < length xs \<Longrightarrow> P (xs ! i) \<Longrightarrow> (\<forall>j<i. \<not> P (xs ! j)) \<Longrightarrow> findIndex P xs = Some i"
proof (induction xs arbitrary: i)
  case Nil
  then show ?case by simp
next
  case (Cons x xs)
  show ?case
  proof (cases i)
    case 0
    with Cons.prems show ?thesis by simp
  next
    case (Suc k)
    have "\<not> P x" using Cons.prems(3) Suc by auto
    moreover have "findIndex P xs = Some k"
    proof (rule Cons.IH)
      show "k < length xs" using Cons.prems(1) Suc by simp
      show "P (xs ! k)" using Cons.prems(2) Suc by simp
      show "\<forall>j<k. \<not> P (xs ! j)"
      proof (intro allI impI)
        fix j assume "j < k"
        then have "Suc j < i" using Suc by simp
        then have "\<not> P ((x # xs) ! Suc j)" using Cons.prems(3) by blast
        then show "\<not> P (xs ! j)" by simp
      qed
    qed
    ultimately show ?thesis using Suc by simp
  qed
qed

lemma findIndex_Some:
  "findIndex P xs = Some i \<Longrightarrow> i < length xs \<and> P (xs ! i) \<and> (\<forall>j<i. \<not> P (xs ! j))"
proof (induction xs arbitrary: i)
  case Nil
  then show ?case by simp
next
  case (Cons x xs)
  show ?case
  proof (cases "P x")
    case True
    with Cons.prems show ?thesis by simp
  next
    case False
    with Cons.prems obtain k where k: "findIndex P xs = Some k" "i = Suc k"
      by (auto split: option.splits)
    from Cons.IH[OF k(1)] have ih: "k < length xs" "P (xs ! k)" "\<forall>j<k. \<not> P (xs ! j)" by auto
    have "\<forall>j<Suc k. \<not> P ((x # xs) ! j)"
    proof (intro allI impI)
      fix j assume "j < Suc k"
      then show "\<not> P ((x # xs) ! j)" using False ih(3) by (cases j) auto
    qed
    with ih k show ?thesis by simp
  qed
qed

lemma isExportDefaultObject_cases:
  assumes "isExportDefaultObject st"
  obtains r q ro ps where "st = ExportAssignment r q (ObjectLiteralExpression ro ps)"
  using assms by (cases st rule: isExportDefaultObject.cases) auto

lemma wrapObjectLiteral_eq:
  "wrapObjectLiteral (ObjectLiteralExpression ro ps) =
     CallExpression ro (Identifier \<lparr>pos = pos ro, end' = pos ro + 1\<rparr> ''__vueEditorBridge'') ro
       [ObjectLiteralExpression ro ps]"
  by (simp add: wrapObjectLiteral_def createCall_def createIdentifier_def Let_def)

lemma vueImport_eq:
  "vueImport =
     ImportDeclaration \<lparr>pos = 0, end' = 0\<rparr>
       (ImportClause \<lparr>pos = 0, end' = 0\<rparr> (Some (Identifier synthesized ''__vueEditorBridge'')) None)
       (StringLiteral \<lparr>pos = 0, end' = 0\<rparr> ''vue-editor-bridge'')"
  by (simp add: vueImport_def createImportDeclaration_def createImportClause_def
      createIdentifier_def createLiteral_def Let_def)

lemma modifyVueScript_found:
  assumes "i < length (statements sf)"
    and "statements sf ! i = ExportAssignment r q (ObjectLiteralExpression ro ps)"
    and "\<forall>j<i. \<not> isExportDefaultObject (statements sf ! j)"
  shows "modifyVueScript sf =
     sf\<lparr>statements := vueImport #
          (statements sf)[i := ExportAssignment r q (wrapObjectLiteral (ObjectLiteralExpression ro ps))]\<rparr>"
proof -
  have "isExportDefaultObject (statements sf ! i)" using assms(2) by simp
  then have "findIndex isExportDefaultObject (statements sf) = Some i"
    using assms(1,3) by (simp add: findIndex_first)
  then show ?thesis using assms(2) by (simp add: modifyVueScript_def)
qed

lemma zero_width_overlaps_nothing: "\<not> overlaps \<lparr>pos = 0, end' = 0\<rparr> b"
  by (simp add: overlaps_def)

lemma length_template_suffix: "length ''.template'' = 9"
  by simp

lemma sliceEnd_template: "sliceEnd (base @ ''.template'') (length ''.template'') = base"
  by (simp add: sliceEnd_def)

lemma parseVueTemplate_whitespace:
  assumes "\<forall>c\<in>set (getText (getSingleTypeDocument env snap ''template'')). isWhiteSpace c"
  shows "parseVueTemplate env snap = []"
proof -
  have "filter (\<lambda>c. \<not> isWhiteSpace c) (getText (getSingleTypeDocument env snap ''template'')) = []"
    using assms by (simp add: filter_empty_conv)
  then show ?thesis by (simp add: parseVueTemplate_def Let_def)
qed

lemma smallHost_fields:
  "clssf smallHost = (\<lambda>h name snapshot target version setNodeParents kind.
         (length h, h @ [mkSourceFile name target (smallScriptParser snapshot)]))"
  "ulssf smallHost = (\<lambda>h sf snapshot version range aggressive.
         if isUnchanged range then (sf, h)
         else (length h,
               h @ [mkSourceFile (fileName (h ! sf)) (languageVersion (h ! sf))
                      (smallScriptParser snapshot)]))"
  "printFile smallHost = statements"
  "createSourceFile smallHost = (\<lambda>h name text target setParentNodes kind.
         (length h, h @ [mkSourceFile name target text]))"
  "parse smallHost = Inr"
  "transformTemplate smallHost = smallVisitor"
  "generateSourceMap smallHost = (\<lambda>original synthetic. (statements original, statements synthetic))"
  "isVirtualVueTemplateFile smallHost = (\<lambda>p. endsWith p ''.vue.template'')"
  "getSingleTypeDocument smallHost = smallRegions"
  "extname smallHost = smallExtname"
  "basename smallHost = smallBasename"
  by (simp_all add: smallHost_def)

text \<open>What the script rewrite does to the statement it finds, and when it finds none.\<close>

lemma modifyVueScript_wraps_found:
  assumes "i < length (statements sf)"
    and "statements sf ! i = ExportAssignment r q (ObjectLiteralExpression ro ps)"
    and "\<forall>j<i. \<not> isExportDefaultObject (statements sf ! j)"
  shows "statements (modifyVueScript sf) ! Suc i =
           ExportAssignment r q
             (CallExpression ro
                (Identifier \<lparr>pos = pos ro, end' = pos ro + 1\<rparr> ''__vueEditorBridge'') ro
                [ObjectLiteralExpression ro ps])"
  using assms by (simp add: modifyVueScript_found[OF assms] wrapObjectLiteral_eq)

lemma modifyVueScript_finds_none:
  assumes "\<forall>st\<in>set (statements sf). \<not> isExportDefaultObject st"
  shows "modifyVueScript sf = sf"
  using assms by (simp add: modifyVueScript_def findIndex_None[THEN iffD2])





lemma modifySourceFile_marks:
  "modifySourceFile env fn sf snap ver k s = s
   \<or> sf \<in> modificationTracker (modifySourceFile env fn sf snap ver k s)"
  by (simp add: modifySourceFile_def)


lemma update_marked_script:
  assumes "d \<in> modificationTracker s"
    and "ulssf env (heap s) d snap ver rng ag = (d, h')"
    and "\<not> isVirtualVueTemplateFile env (fileName (h' ! d))"
  shows "updateLanguageServiceSourceFile env d snap ver rng ag s = (Inr d, s\<lparr>heap := h'\<rparr>)"
  using assms
  by (simp add: updateLanguageServiceSourceFile_def modifySourceFile_def Let_def)








text \<open>No update writes to \<open>scriptKindTracker\<close>: only a creation stores a script kind, and
  it stores it for the object that the host made for that creation.\<close>

lemma recreate_keeps_scriptKindTracker:
  "scriptKindTracker (snd (recreateVueTempalteSourceFile env fn sf snap s)) = scriptKindTracker s"
  unfolding recreateVueTempalteSourceFile_def Let_def
  by (simp split: sum.splits transformed.splits prod.splits)

lemma update_keeps_scriptKindTracker:
  "scriptKindTracker (snd (updateLanguageServiceSourceFile env sf snap ver rng ag s))
     = scriptKindTracker s"
proof -
  obtain d h' where u: "ulssf env (heap s) sf snap ver rng ag = (d, h')"
    by (cases "ulssf env (heap s) sf snap ver rng ag")
  show ?thesis
  proof (cases "isVirtualVueTemplateFile env (fileName (h' ! d))")
    case True
    obtain r s2 where
      r: "recreateVueTempalteSourceFile env (fileName (h' ! d)) d snap (s\<lparr>heap := h'\<rparr>) = (r, s2)"
      by (cases "recreateVueTempalteSourceFile env (fileName (h' ! d)) d snap (s\<lparr>heap := h'\<rparr>)")
    have "scriptKindTracker s2 = scriptKindTracker (s\<lparr>heap := h'\<rparr>)"
      using recreate_keeps_scriptKindTracker[of env "fileName (h' ! d)" d snap "s\<lparr>heap := h'\<rparr>"] r
      by simp
    then show ?thesis using u True r
      by (cases r) (simp_all add: updateLanguageServiceSourceFile_def Let_def)
  next
    case False
    then show ?thesis using u
      by (simp add: updateLanguageServiceSourceFile_def modifySourceFile_def Let_def)
  qed
qed

section \<open>Extraction of the script section\<close>

text \<open>
  Claim C10. For every component document whose script region yields the empty text,
  \<open>parseVueScript\<close> returns the fallback text \<open>export default {};\<close> and not the empty
  string.
\<close>

theorem parseVueScript_fallback:
  assumes "getText (getSingleTypeDocument env text ''script'') = []"
  shows "parseVueScript env text = ''export default {};''"
  using assms by (simp add: parseVueScript_def)

theorem parseVueScript_fallback_witness:
  "getText (getSingleTypeDocument smallHost ''<template>hi</template>'' ''script'') = []
   \<and> parseVueScript smallHost ''<template>hi</template>'' = ''export default {};''"
proof -
  have h: "getText (getSingleTypeDocument smallHost ''<template>hi</template>'' ''script'') = []"
    by (simp add: smallHost_def smallRegions_def startsWith_def)
  from parseVueScript_fallback[OF h] h show ?thesis by simp
qed

section \<open>Properties of the script rewrite\<close>

text \<open>
  Claim C3. For every script with a top-level default export of an object literal, the
  call that wraps the literal and the node array of its arguments carry the range of
  the literal, and the range of the call target goes from the start offset of the
  literal to that offset plus one. The code wraps the first export assignment of an
  object literal, of either form. In the script \<open>export = {}; export default {}\<close> it
  wraps the literal of \<open>export =\<close>, with the range 8 to 11 of that literal, and leaves
  the default export, whose literal has the range 27 to 30, without a call.
\<close>

theorem modifyVueScript_misses_default_export:
  "hasDefaultExportOfObjectLiteral exportEqualsThenDefaultScript
   \<and> statements (modifyVueScript exportEqualsThenDefaultScript) =
       [ImportDeclaration \<lparr>pos = 0, end' = 0\<rparr>
          (ImportClause \<lparr>pos = 0, end' = 0\<rparr>
             (Some (Identifier synthesized ''__vueEditorBridge'')) None)
          (StringLiteral \<lparr>pos = 0, end' = 0\<rparr> ''vue-editor-bridge''),
        ExportAssignment \<lparr>pos = 0, end' = 12\<rparr> True
          (CallExpression \<lparr>pos = 8, end' = 11\<rparr>
             (Identifier \<lparr>pos = 8, end' = 9\<rparr> ''__vueEditorBridge'') \<lparr>pos = 8, end' = 11\<rparr>
             [ObjectLiteralExpression \<lparr>pos = 8, end' = 11\<rparr> []]),
        ExportAssignment \<lparr>pos = 12, end' = 30\<rparr> False
          (ObjectLiteralExpression \<lparr>pos = 27, end' = 30\<rparr> [])]"
  by (simp add: hasDefaultExportOfObjectLiteral_def exportEqualsThenDefaultScript_def
      mkSourceFile_def smallScriptParser_def modifyVueScript_def vueImport_eq wrapObjectLiteral_eq)

text \<open>
  Claim C8. For every script document without a top-level default export of an object
  literal, the script rewrite returns the document as it is. The code tests the syntax
  kind \<open>ExportAssignment\<close>, which \<open>export default\<close> and \<open>export =\<close> share: the script
  \<open>export = {}\<close> has no default export, and the rewrite puts the import in front of it
  and wraps its literal.
\<close>

theorem modifyVueScript_rewrites_export_equals:
  "\<not> hasDefaultExportOfObjectLiteral exportEqualsScript
   \<and> statements exportEqualsScript =
       [ExportAssignment \<lparr>pos = 0, end' = 11\<rparr> True
          (ObjectLiteralExpression \<lparr>pos = 8, end' = 11\<rparr> [])]
   \<and> statements (modifyVueScript exportEqualsScript) =
       [ImportDeclaration \<lparr>pos = 0, end' = 0\<rparr>
          (ImportClause \<lparr>pos = 0, end' = 0\<rparr>
             (Some (Identifier synthesized ''__vueEditorBridge'')) None)
          (StringLiteral \<lparr>pos = 0, end' = 0\<rparr> ''vue-editor-bridge''),
        ExportAssignment \<lparr>pos = 0, end' = 11\<rparr> True
          (CallExpression \<lparr>pos = 8, end' = 11\<rparr>
             (Identifier \<lparr>pos = 8, end' = 9\<rparr> ''__vueEditorBridge'') \<lparr>pos = 8, end' = 11\<rparr>
             [ObjectLiteralExpression \<lparr>pos = 8, end' = 11\<rparr> []])]"
  by (simp add: hasDefaultExportOfObjectLiteral_def exportEqualsScript_def mkSourceFile_def
      smallScriptParser_def modifyVueScript_def vueImport_eq wrapObjectLiteral_eq)

text \<open>
  Claim C9. When the script rewrite applies, the import of the bridging helper is the
  first statement of the document, and it, its import clause and its module specifier
  have the range from 0 to 0. The statements after it have the ranges that the
  statements of the document had before, and the range of the import overlaps none of
  them.
\<close>

theorem modifyVueScript_import_first:
  assumes "\<exists>st\<in>set (statements sf). isExportDefaultObject st"
  shows "statements (modifyVueScript sf) \<noteq> []
    \<and> hd (statements (modifyVueScript sf)) =
        ImportDeclaration \<lparr>pos = 0, end' = 0\<rparr>
          (ImportClause \<lparr>pos = 0, end' = 0\<rparr>
             (Some (Identifier synthesized ''__vueEditorBridge'')) None)
          (StringLiteral \<lparr>pos = 0, end' = 0\<rparr> ''vue-editor-bridge'')
    \<and> map rangeOfStatement (tl (statements (modifyVueScript sf)))
        = map rangeOfStatement (statements sf)
    \<and> (\<forall>st\<in>set (statements sf).
          \<not> overlaps (rangeOfStatement (hd (statements (modifyVueScript sf))))
               (rangeOfStatement st))"
proof -
  from assms have "findIndex isExportDefaultObject (statements sf) \<noteq> None"
    by (simp add: findIndex_None)
  then obtain i where i: "findIndex isExportDefaultObject (statements sf) = Some i" by auto
  from findIndex_Some[OF i] have il: "i < length (statements sf)"
    and ip: "isExportDefaultObject (statements sf ! i)"
    and first: "\<forall>j<i. \<not> isExportDefaultObject (statements sf ! j)" by auto
  from ip obtain r q ro ps where
    st: "statements sf ! i = ExportAssignment r q (ObjectLiteralExpression ro ps)"
    by (rule isExportDefaultObject_cases)
  have eq: "statements (modifyVueScript sf) = vueImport #
      (statements sf)[i := ExportAssignment r q (wrapObjectLiteral (ObjectLiteralExpression ro ps))]"
    by (simp add: modifyVueScript_found[OF il st first])
  have "rangeOfStatement (ExportAssignment r q (wrapObjectLiteral (ObjectLiteralExpression ro ps)))
        = rangeOfStatement (statements sf ! i)"
    by (simp add: st)
  then have ranges: "map rangeOfStatement
      ((statements sf)[i := ExportAssignment r q (wrapObjectLiteral (ObjectLiteralExpression ro ps))])
      = map rangeOfStatement (statements sf)"
    using il by (simp add: map_update list_update_same_conv)
  show ?thesis
    using ranges by (simp add: eq vueImport_eq zero_width_overlaps_nothing)
qed

theorem modifyVueScript_import_first_witness:
  "rangeOfStatement (hd (statements (modifyVueScript twoStatementScript))) = \<lparr>pos = 0, end' = 0\<rparr>
   \<and> map rangeOfStatement (tl (statements (modifyVueScript twoStatementScript)))
       = [\<lparr>pos = 0, end' = 12\<rparr>, \<lparr>pos = 12, end' = 30\<rparr>]"
proof -
  have "\<exists>st\<in>set (statements twoStatementScript). isExportDefaultObject st"
    by (simp add: twoStatementScript_def mkSourceFile_def)
  from modifyVueScript_import_first[OF this] show ?thesis
    by (simp add: twoStatementScript_def mkSourceFile_def)
qed

section \<open>Properties of the template injector\<close>

text \<open>
  Claim C4. For every document and every sequence of expressions, after the injection
  the statement list of the document is the component import, the helper import and
  the statement that calls the render helper, in that order and nothing else, and the
  external-module indicator of the document is the component import. The function
  passed to the render helper holds one expression statement for each expression, in
  the order of the sequence.
\<close>

theorem injectVueTemplate_statements:
  "statements (injectVueTemplate env sf es) =
     [ImportDeclaration synthesized
        (ImportClause synthesized (Some (Identifier synthesized ''__Component'')) None)
        (StringLiteral synthesized (''./'' @ basename env (sliceEnd (fileName sf) 9))),
      ImportDeclaration synthesized
        (ImportClause synthesized None
           (Some [Identifier synthesized (renderHelperName env),
                  Identifier synthesized (componentHelperName env),
                  Identifier synthesized (iterationHelperName env),
                  Identifier synthesized (listenerHelperName env)]))
        (StringLiteral synthesized ''vue-editor-bridge''),
      ExpressionStatement synthesized
        (CallExpression synthesized (Identifier synthesized (renderHelperName env)) synthesized
           [Identifier synthesized ''__Component'',
            FunctionExpression synthesized (map (ExpressionStatement synthesized) es)])]
   \<and> externalModuleIndicator (injectVueTemplate env sf es) =
       Some (statements (injectVueTemplate env sf es) ! 0)"
  by (simp add: injectVueTemplate_def componentImport_def helperImport_def renderElement_def
      createImportDeclaration_def createImportClause_def createIdentifier_def createLiteral_def
      createStatement_def createCall_def createFunctionExpression_def Let_def comp_def)

section \<open>Properties of the derivation of a template document\<close>

text \<open>
  Claim C5. After every derivation of the document of a virtual template file, whose
  name is a name \<open>base\<close> followed by the suffix \<open>.template\<close>, the table of source maps
  holds the source map of this derivation under the name of the virtual file and under
  \<open>base\<close>: the same source map under both keys, made from the document handed to the
  printer and the document parsed back, whatever the table held before. All other
  entries of the table stay as they were.
\<close>

theorem recreate_overwrites_both_keys:
  assumes "recreateVueTempalteSourceFile env (base @ ''.template'') sf snap s = (Inr nsf, s')"
  shows "templateSourceMap s' (base @ ''.template'')
           = Some (generateSourceMap env (heap s' ! sf) (heap s' ! nsf))
    \<and> templateSourceMap s' base = Some (generateSourceMap env (heap s' ! sf) (heap s' ! nsf))
    \<and> (\<forall>k. k \<noteq> base @ ''.template'' \<and> k \<noteq> base
          \<longrightarrow> templateSourceMap s' k = templateSourceMap s k)"
  using assms unfolding recreateVueTempalteSourceFile_def Let_def sliceEnd_template
  by (auto split: sum.splits transformed.splits prod.splits)

theorem recreate_overwrites_both_keys_witness:
  "fst (recreateVueTempalteSourceFile smallHost (''/src/App.vue'' @ ''.template'') 0
          ''<template>{{ msg }}</template>'' templateHostState) = Inr 1
   \<and> templateSourceMap (snd (recreateVueTempalteSourceFile smallHost
          (''/src/App.vue'' @ ''.template'') 0 ''<template>{{ msg }}</template>'' templateHostState))
        ''/src/App.vue''
       = templateSourceMap (snd (recreateVueTempalteSourceFile smallHost
          (''/src/App.vue'' @ ''.template'') 0 ''<template>{{ msg }}</template>'' templateHostState))
        (''/src/App.vue'' @ ''.template'')
   \<and> templateSourceMap (snd (recreateVueTempalteSourceFile smallHost
          (''/src/App.vue'' @ ''.template'') 0 ''<template>{{ msg }}</template>'' templateHostState))
        ''/src/App.vue'' \<noteq> None"
proof -
  define R where "R = recreateVueTempalteSourceFile smallHost (''/src/App.vue'' @ ''.template'') 0
          ''<template>{{ msg }}</template>'' templateHostState"
  have f: "fst R = Inr 1" unfolding R_def by code_simp
  then have "R = (Inr 1, snd R)" by (cases R) simp
  from recreate_overwrites_both_keys[OF this[unfolded R_def]] f show ?thesis
    unfolding R_def by simp
qed

text \<open>
  Claim C1, as the specification words it: when the transform visitor throws after it
  has produced \<open>k\<close> expressions, the returned document holds \<open>k\<close> wrapped statements. Here
  the visitor throws after its first expression, and the document returned for the
  virtual file has no statement at all: nothing was injected.
\<close>

theorem recreate_drops_partial_expressions:
  "transformTemplate smallHost ''<template>{{ a }}{{ b }}</template>''
       (parseVueTemplate smallHost ''<template>{{ a }}{{ b }}</template>'')
     = Threw (Thrown ''unexpected node'') [Identifier \<lparr>pos = 13, end' = 14\<rparr> ''a'']
   \<and> fst failingCreated = Inr 1
   \<and> statements (heap (snd failingCreated) ! 1) = []"
  by code_simp

text \<open>
  Claim C1, amended. When the transform visitor throws, whatever number of expressions
  it had produced, the derivation does not propagate what was thrown: it writes the
  failure, with the name of the document, and the thrown value to the console, injects
  nothing, and returns the document that the host parses from the print of the host's
  own document, unchanged. None of the expressions produced is wrapped, and the source
  map of the derivation is stored under both keys.
\<close>

theorem recreate_visitor_throws:
  assumes "parse env (parseVueTemplate env snap) = Inr g"
    and "transformTemplate env g (parseVueTemplate env snap) = Threw err produced"
  shows "recreateVueTempalteSourceFile env fn sf snap s =
     (let (nsf, h2) = createSourceFile env (heap s) fn (printFile env (heap s ! sf))
                        (languageVersion (heap s ! sf)) True JS;
          m = generateSourceMap env (h2 ! sf) (h2 ! nsf)
      in (Inr nsf,
          s\<lparr>consoleLog := consoleLog s @
               [LogText (''Failed to transform template of '' @ fn), LogThrown err],
            heap := h2,
            templateSourceMap := (templateSourceMap s)(fn \<mapsto> m, sliceEnd fn 9 \<mapsto> m)\<rparr>))"
  using assms unfolding recreateVueTempalteSourceFile_def Let_def length_template_suffix
  by (simp split: prod.splits)

theorem recreate_visitor_throws_witness:
  "fst (recreateVueTempalteSourceFile smallHost ''/src/App.vue.template'' 0
          ''<template>{{ a }}{{ b }}</template>'' templateHostState) = Inr 1
   \<and> consoleLog (snd (recreateVueTempalteSourceFile smallHost ''/src/App.vue.template'' 0
          ''<template>{{ a }}{{ b }}</template>'' templateHostState))
       = [LogText ''Failed to transform template of /src/App.vue.template'',
          LogThrown (Thrown ''unexpected node'')]
   \<and> heap (snd (recreateVueTempalteSourceFile smallHost ''/src/App.vue.template'' 0
          ''<template>{{ a }}{{ b }}</template>'' templateHostState))
       = [mkSourceFile ''/src/App.vue.template'' 0 [], mkSourceFile ''/src/App.vue.template'' 0 []]"
proof -
  have p: "parse smallHost (parseVueTemplate smallHost ''<template>{{ a }}{{ b }}</template>'')
             = Inr ''<template>{{ a }}{{ b }}</template>''"
    by code_simp
  have t: "transformTemplate smallHost ''<template>{{ a }}{{ b }}</template>''
             (parseVueTemplate smallHost ''<template>{{ a }}{{ b }}</template>'')
             = Threw (Thrown ''unexpected node'') [Identifier \<lparr>pos = 13, end' = 14\<rparr> ''a'']"
    by code_simp
  from recreate_visitor_throws[OF p t, of "''/src/App.vue.template''" 0 templateHostState]
  show ?thesis
    by (simp add: templateHostState_def emptyState_def smallHost_fields mkSourceFile_def Let_def)
qed

text \<open>
  Claim C7, as the specification words it: for a template section of white space only,
  the document has an empty statement list. Here the template section holds three
  spaces; the extracted text is empty, and the document returned for the virtual file
  has three statements.
\<close>

theorem recreate_injects_for_blank_template:
  "parseVueTemplate smallHost ''<template>   </template>'' = []
   \<and> fst blankCreated = Inr 1
   \<and> length (statements (heap (snd blankCreated) ! 1)) = 3"
  by code_simp

text \<open>
  Claim C7, amended. For every component file whose template section is white space
  only, the extracted template text is empty. The markup parser and the transform
  visitor are still called, on the empty text, and the expressions that the visitor
  returns for it are injected as for any other template: the document handed to the
  printer has the three injected statements, and the function passed to the render
  helper has an empty body when the visitor returns no expression.
\<close>

theorem recreate_whitespace_template:
  assumes "\<forall>c\<in>set (getText (getSingleTypeDocument env snap ''template'')). isWhiteSpace c"
    and "parse env [] = Inr g"
    and "transformTemplate env g [] = Returned es"
    and "sf < length (heap s)"
  shows "parseVueTemplate env snap = []
    \<and> recreateVueTempalteSourceFile env fn sf snap s =
     (let injected = injectVueTemplate env (heap s ! sf) es;
          (nsf, h2) = createSourceFile env ((heap s)[sf := injected]) fn (printFile env injected)
                        (languageVersion (heap s ! sf)) True JS;
          m = generateSourceMap env (h2 ! sf) (h2 ! nsf)
      in (Inr nsf,
          s\<lparr>heap := h2,
            templateSourceMap := (templateSourceMap s)(fn \<mapsto> m, sliceEnd fn 9 \<mapsto> m)\<rparr>))"
proof -
  have e: "parseVueTemplate env snap = []" by (rule parseVueTemplate_whitespace[OF assms(1)])
  have lv: "languageVersion (injectVueTemplate env (heap s ! sf) es) = languageVersion (heap s ! sf)"
    by (simp add: injectVueTemplate_def)
  show ?thesis
    unfolding recreateVueTempalteSourceFile_def Let_def e length_template_suffix
    using assms(2,3,4) by (simp add: lv split: prod.splits)
qed

theorem recreate_whitespace_template_witness:
  "parseVueTemplate smallHost ''<template>   </template>'' = []
   \<and> fst (recreateVueTempalteSourceFile smallHost ''/src/App.vue.template'' 0
          ''<template>   </template>'' templateHostState) = Inr 1
   \<and> length (statements (heap (snd (recreateVueTempalteSourceFile smallHost
          ''/src/App.vue.template'' 0 ''<template>   </template>'' templateHostState)) ! 1)) = 3"
proof -
  have w: "\<forall>c\<in>set (getText (getSingleTypeDocument smallHost ''<template>   </template>'' ''template'')).
             isWhiteSpace c"
    by code_simp
  have p: "parse smallHost [] = Inr []" by (simp add: smallHost_fields)
  have t: "transformTemplate smallHost [] [] = Returned []"
    by (simp add: smallHost_fields smallVisitor_def)
  have l: "0 < length (heap templateHostState)"
    by (simp add: templateHostState_def)
  from recreate_whitespace_template[OF w p t l, of "''/src/App.vue.template''"]
  show ?thesis
    by (simp add: templateHostState_def emptyState_def smallHost_fields mkSourceFile_def Let_def
        injectVueTemplate_def)
qed

section \<open>Properties of the two lifecycle operations\<close>



text \<open>
  Claim C6. On every update of an existing document, the lifecycle manager recovers the
  script kind that was stored at creation, lets the host update the document, and then
  routes the result as a creation does. The code loses the script kind after the first
  update. Here a component script is created with the script kind \<open>TS\<close>, so the creation
  leaves it as the host parsed it. The first update reads the kind stored for the
  created object, and leaves the new object of the host as it is. No kind is stored for
  that new object, so the second update reads no kind, takes the script for one that
  is not TypeScript, and rewrites it, which a creation with the kind \<open>TS\<close> does not do.
\<close>

theorem second_update_rewrites_ts_script:
  "fst tsCreated = Inr 0
   \<and> getScriptKind (snd tsCreated) 0 = Some TS
   \<and> statements (heap (snd tsCreated) ! 0) = smallScriptParser ''export default {}''
   \<and> fst tsUpdated = Inr 1
   \<and> getScriptKind (snd tsUpdated) 1 = None
   \<and> statements (heap (snd tsUpdated) ! 1) = smallScriptParser ''export default {}''
   \<and> fst tsUpdatedAgain = Inr 2
   \<and> statements (heap (snd tsUpdatedAgain) ! 2)
       = statements (modifyVueScript
           (mkSourceFile ''/src/App.vue'' 0 (smallScriptParser ''export default {}'')))
   \<and> statements (heap (snd tsUpdatedAgain) ! 2) \<noteq> smallScriptParser ''export default {}''"
  by code_simp

end
